theory Spec2Isabelle
  imports Main "HOL-Library.Word"
begin

section \<open>Agency authorization policy engine\<close>

text \<open>
  The data model of \<^verbatim>\<open>gov-workflow-logging-compliance.ts\<close>: the access-level enum, the
  per-agency authentication profile and the presented CAC/PIV credentials.
\<close>

datatype AccessLevel = RESTRICTED | STANDARD | PRIVILEGED | EXECUTIVE | SYSTEM_ADMIN

datatype VerificationStepType = BIOMETRIC | SECONDARY_CREDENTIAL | LOCATION_VERIFICATION

record VerificationStep =
  stepType :: VerificationStepType
  description :: string
  mandatory :: bool

record AuthenticationRequirements =
  requiredAccessLevel :: AccessLevel
  mandatoryRoleVerification :: bool
  additionalVerificationSteps :: "VerificationStep list option"

text \<open>
  \<^verbatim>\<open>workflowAccessControls: { [workflowType: string]: AccessLevel[] }\<close> is an object used
  as a dictionary from workflow-type names to arrays of access levels; it is modelled as a
  partial map over the entries the profile itself lists.
\<close>

record AgencyAuthenticationProfile =
  agencyId :: string
  name :: string
  authenticationRequirements :: AuthenticationRequirements
  workflowAccessControls :: "string \<rightharpoonup> AccessLevel list"

record CAC_PIV_Credentials =
  cardSerialNumber :: string
  organizationUnit :: string
  userDistinguishedName :: string
  accessLevel :: AccessLevel
  certificateChain :: string

record WorkflowAccessDecision =
  authorized :: bool
  reason :: string

text \<open>
  A call either returns a value or throws; the thrown error is kept as its message.
\<close>

datatype 'a attempt = Returns 'a | Throws string

text \<open>
  The manager's state. Only the profile registry \<^verbatim>\<open>agencyProfiles\<close> is read or written
  by the operations below (\<^verbatim>\<open>activeAuthentications\<close> is declared and never used).
\<close>

record GovernmentAuthenticationManager =
  agencyProfiles :: "string \<rightharpoonup> AgencyAuthenticationProfile"

text \<open>
  Modelled from the spec: \<^verbatim>\<open>getAgencyProfile\<close> is called by
  \<^verbatim>\<open>authorizeWorkflowAccess\<close> and is not defined in the sources. The specification has
  the profile looked up in the registry by the agency identifier handed over, absent when
  nothing was registered under it.
\<close>

definition getAgencyProfile ::
  "GovernmentAuthenticationManager \<Rightarrow> string \<Rightarrow> AgencyAuthenticationProfile option" where
  "getAgencyProfile m key = agencyProfiles m key"

text \<open>
  The names every object inherits from \<^verbatim>\<open>Object.prototype\<close>. Reading one of them from
  an object that has no property of its own under that name yields the inherited member (a
  function, or the prototype object for \<^verbatim>\<open>__proto__\<close>), not \<^verbatim>\<open>undefined\<close>.
\<close>

definition objectPrototypeKeys :: "string list" where
  "objectPrototypeKeys =
     [''constructor'', ''hasOwnProperty'', ''isPrototypeOf'', ''propertyIsEnumerable'',
      ''toLocaleString'', ''toString'', ''valueOf'', ''__proto__'',
      ''__defineGetter__'', ''__defineSetter__'', ''__lookupGetter__'', ''__lookupSetter__'']"

text \<open>
  What \<^verbatim>\<open>obj[key]\<close> yields on the workflow-access object, a plain object whose prototype
  is \<^verbatim>\<open>Object.prototype\<close>: the array of its own entry, else the inherited member, else
  \<^verbatim>\<open>undefined\<close>.
\<close>

datatype propertyValue = ArrayValue "AccessLevel list" | InheritedValue | UndefinedValue

definition getProperty :: "(string \<rightharpoonup> AccessLevel list) \<Rightarrow> string \<Rightarrow> propertyValue" where
  "getProperty obj key =
     (case obj key of
        Some levels \<Rightarrow> ArrayValue levels
      | None \<Rightarrow> if key \<in> set objectPrototypeKeys then InheritedValue else UndefinedValue)"

text \<open>
  \<^verbatim>\<open>agencyProfile.workflowAccessControls[workflowType] || []\<close>: \<^verbatim>\<open>undefined\<close> is
  replaced by the empty array; an array (also an empty one) and an inherited member are
  truthy and are kept.
\<close>

definition permittedAccessLevels :: "AgencyAuthenticationProfile \<Rightarrow> string \<Rightarrow> propertyValue" where
  "permittedAccessLevels agencyProfile workflowType =
     (case getProperty (workflowAccessControls agencyProfile) workflowType of
        UndefinedValue \<Rightarrow> ArrayValue []
      | found \<Rightarrow> found)"

text \<open>
  \<^verbatim>\<open>permittedAccessLevels.includes(level)\<close>: membership on an array; on anything else
  \<^verbatim>\<open>includes\<close> is not a function and the call throws a \<^verbatim>\<open>TypeError\<close>.
\<close>

definition arrayIncludes :: "propertyValue \<Rightarrow> AccessLevel \<Rightarrow> bool attempt" where
  "arrayIncludes found level =
     (case found of
        ArrayValue levels \<Rightarrow> Returns (level \<in> set levels)
      | InheritedValue \<Rightarrow> Throws ''TypeError: permittedAccessLevels.includes is not a function''
      | UndefinedValue \<Rightarrow> Throws ''TypeError: Cannot read properties of undefined'')"

text \<open>
  \<^verbatim>\<open>authorizeWorkflowAccess\<close> has no \<^verbatim>\<open>try\<close>: an error thrown inside it reaches the
  caller.
\<close>

definition authorizeWorkflowAccess ::
  "GovernmentAuthenticationManager \<Rightarrow> CAC_PIV_Credentials \<Rightarrow> string
     \<Rightarrow> WorkflowAccessDecision attempt" where
  "authorizeWorkflowAccess m credentials workflowType =
     (case getAgencyProfile m (organizationUnit credentials) of
        None \<Rightarrow> Returns \<lparr>authorized = False, reason = ''UNKNOWN_AGENCY''\<rparr>
      | Some agencyProfile \<Rightarrow>
          (case arrayIncludes (permittedAccessLevels agencyProfile workflowType)
                  (accessLevel credentials) of
             Throws e \<Rightarrow> Throws e
           | Returns isAuthorized \<Rightarrow>
               Returns \<lparr>authorized = isAuthorized,
                        reason = (if isAuthorized then ''ACCESS_GRANTED''
                                  else ''INSUFFICIENT_PRIVILEGES'')\<rparr>))"

text \<open>\<^verbatim>\<open>this.agencyProfiles.set(profile.agencyId, profile)\<close>\<close>

definition registerAgencyAuthenticationProfile ::
  "GovernmentAuthenticationManager \<Rightarrow> AgencyAuthenticationProfile \<Rightarrow> GovernmentAuthenticationManager" where
  "registerAgencyAuthenticationProfile m profile =
     m\<lparr>agencyProfiles := (agencyProfiles m)(agencyId profile \<mapsto> profile)\<rparr>"

text \<open>A freshly constructed manager: \<^verbatim>\<open>agencyProfiles = new Map()\<close>.\<close>

definition newManager :: GovernmentAuthenticationManager where
  "newManager = \<lparr>agencyProfiles = Map.empty\<rparr>"

text \<open>The example profile at the end of the source file.\<close>

definition defenseLogisticsAgencyProfile :: AgencyAuthenticationProfile where
  "defenseLogisticsAgencyProfile =
     \<lparr>agencyId = ''DLA_001'',
      name = ''Defense Logistics Agency'',
      authenticationRequirements =
        \<lparr>requiredAccessLevel = PRIVILEGED,
         mandatoryRoleVerification = True,
         additionalVerificationSteps =
           Some [\<lparr>stepType = SECONDARY_CREDENTIAL,
                  description = ''Additional Security Token Required'',
                  mandatory = True\<rparr>]\<rparr>,
      workflowAccessControls =
        map_of [(''BID_SUBMISSION'', [STANDARD, PRIVILEGED]),
                (''BID_TRACKING'', [PRIVILEGED, EXECUTIVE])]\<rparr>"

text \<open>
  Whether a profile asks for secondary verification: the role-verification flag is set, or
  one of the declared additional steps is mandatory.
\<close>

definition requiresSecondaryVerification :: "AgencyAuthenticationProfile \<Rightarrow> bool" where
  "requiresSecondaryVerification p =
     (mandatoryRoleVerification (authenticationRequirements p) \<or>
      (case additionalVerificationSteps (authenticationRequirements p) of
         None \<Rightarrow> False
       | Some steps \<Rightarrow> list_ex mandatory steps))"

section \<open>Session tokens\<close>

text \<open>
  Timestamps are the millisecond counts \<^verbatim>\<open>Date.now()\<close> returns, modelled as integers.
  The wall clock is not an argument of any source function: each function that calls
  \<^verbatim>\<open>Date.now()\<close> takes the reading of the clock at the call as its argument \<open>now\<close>.
\<close>

record TokenMetadata =
  ipAddress :: string
  deviceFingerprint :: string

record SecureToken =
  tokenId :: string
  userId :: string
  tokenAgencyId :: string
  tokenAccessLevel :: AccessLevel
  createdAt :: int
  expiresAt :: int
  metadata :: TokenMetadata

record TokenValidationResult =
  tokenValid :: bool
  tokenReason :: "string option"
  remainingValidity :: "int option"

text \<open>\<^verbatim>\<open>SecureTokenManager.validateToken\<close>\<close>

definition validateToken :: "int \<Rightarrow> SecureToken \<Rightarrow> TokenValidationResult" where
  "validateToken now token =
     (if now > expiresAt token
      then \<lparr>tokenValid = False, tokenReason = Some ''TOKEN_EXPIRED'', remainingValidity = None\<rparr>
      else \<lparr>tokenValid = True, tokenReason = None,
            remainingValidity = Some (expiresAt token - now)\<rparr>)"

subsection \<open>Token identifiers\<close>

text \<open>
  \<^verbatim>\<open>Buffer.toString('hex')\<close>: every byte becomes its two lower-case hexadecimal digits,
  high nibble first.
\<close>

definition hexDigit :: "nat \<Rightarrow> char" where
  "hexDigit n = ''0123456789abcdef'' ! n"

definition hexOfByte :: "8 word \<Rightarrow> string" where
  "hexOfByte b = [hexDigit (unat b div 16), hexDigit (unat b mod 16)]"

definition toHex :: "8 word list \<Rightarrow> string" where
  "toHex bytes = concat (map hexOfByte bytes)"

text \<open>
  \<^verbatim>\<open>TOKEN_CONFIG.generateTokenId\<close>: \<^verbatim>\<open>crypto.randomBytes(32).toString('hex')\<close>. The
  random source is outside the program; \<open>randomBytes\<close> is what it returned for this call,
  a buffer of 32 bytes.
\<close>

definition generateTokenId :: "8 word list \<Rightarrow> string" where
  "generateTokenId randomBytes = toHex randomBytes"

text \<open>The decimal rendering of a number inside a template literal.\<close>

definition decimalDigit :: "nat \<Rightarrow> char" where
  "decimalDigit n = ''0123456789'' ! n"

function decimal :: "nat \<Rightarrow> string" where
  "decimal n = (if n < 10 then [decimalDigit n] else decimal (n div 10) @ [decimalDigit (n mod 10)])"
  by pat_completeness auto
termination
  by (relation "measure (\<lambda>n. n)") auto

declare decimal.simps [simp del]

definition numberToString :: "int \<Rightarrow> string" where
  "numberToString n = (if n < 0 then CHR ''-'' # decimal (nat (- n)) else decimal (nat n))"

text \<open>
  \<^verbatim>\<open>GovernmentAuthenticationManager.generateSecureSessionToken\<close>, the token the credential
  verifier hands out: \<^verbatim>\<open>`GOV_AUTH_${Date.now()}_${credentials.cardSerialNumber}`\<close>.
\<close>

definition generateSecureSessionToken :: "int \<Rightarrow> CAC_PIV_Credentials \<Rightarrow> string" where
  "generateSecureSessionToken now credentials =
     ''GOV_AUTH_'' @ numberToString now @ ''_'' @ cardSerialNumber credentials"

text \<open>\<^verbatim>\<open>extractAgencyFromOrganizationalUnit\<close>: \<^verbatim>\<open>ou.split(',')[0]\<close>, the text before the first comma.\<close>

definition extractAgencyFromOrganizationalUnit :: "string \<Rightarrow> string" where
  "extractAgencyFromOrganizationalUnit ou = takeWhile (\<lambda>c. c \<noteq> CHR '','') ou"

section \<open>Credential verification\<close>

record ValidationResult =
  checkValid :: bool
  errorMessage :: "string option"

record UserProfile =
  profileUserId :: string
  profileAccessLevel :: AccessLevel
  agency :: string

record AuthenticationResult =
  authenticated :: bool
  errorDetails :: "string option list option"
  sessionToken :: "string option"
  userProfile :: "UserProfile option"

text \<open>
  The three private checks of the manager. In the source each one is a placeholder that
  returns \<^verbatim>\<open>{ valid: true }\<close> for every input.
\<close>

definition validateCertificateChain :: "string \<Rightarrow> ValidationResult" where
  "validateCertificateChain chain = \<lparr>checkValid = True, errorMessage = None\<rparr>"

definition verifyOrganizationalUnit :: "string \<Rightarrow> ValidationResult" where
  "verifyOrganizationalUnit ou = \<lparr>checkValid = True, errorMessage = None\<rparr>"

definition checkAccessLevelAuthorization :: "CAC_PIV_Credentials \<Rightarrow> ValidationResult" where
  "checkAccessLevelAuthorization credentials = \<lparr>checkValid = True, errorMessage = None\<rparr>"

text \<open>
  \<^verbatim>\<open>verifyCAC_PIV_Credentials\<close>. Nothing called inside its \<^verbatim>\<open>try\<close> throws (the three
  checks return, and so do the token generation and the split of the organizational
  unit), so the \<^verbatim>\<open>catch\<close> branch with \<^verbatim>\<open>AUTHENTICATION_SYSTEM_ERROR\<close> is never taken.
\<close>

definition verifyCAC_PIV_Credentials :: "int \<Rightarrow> CAC_PIV_Credentials \<Rightarrow> AuthenticationResult" where
  "verifyCAC_PIV_Credentials now credentials =
     (let validationResults =
            [validateCertificateChain (certificateChain credentials),
             verifyOrganizationalUnit (organizationUnit credentials),
             checkAccessLevelAuthorization credentials];
          failedValidations = filter (\<lambda>result. \<not> checkValid result) validationResults
      in if length failedValidations > 0
         then \<lparr>authenticated = False,
               errorDetails = Some (map errorMessage failedValidations),
               sessionToken = None, userProfile = None\<rparr>
         else \<lparr>authenticated = True,
               errorDetails = None,
               sessionToken = Some (generateSecureSessionToken now credentials),
               userProfile =
                 Some \<lparr>profileUserId = userDistinguishedName credentials,
                       profileAccessLevel = accessLevel credentials,
                       agency = extractAgencyFromOrganizationalUnit
                                  (organizationUnit credentials)\<rparr>\<rparr>)"

section \<open>Certificate chain validation\<close>

datatype CertificatePurpose = AUTHENTICATION | DIGITAL_SIGNATURE | ENCRYPTION

record ValidationDetails =
  chainLength :: nat
  validationTimestamp :: int

record CertificateValidationResult =
  valid :: bool
  details :: "ValidationDetails option"
  error :: "string option"

record ValidationConfig =
  MAX_CHAIN_DEPTH :: nat
  ALLOWED_SIGNATURE_ALGORITHMS :: "string list"
  REQUIRED_KEY_USAGE :: "string list"

text \<open>The configuration the class is initialised with.\<close>

definition sourceValidationConfig :: ValidationConfig where
  "sourceValidationConfig =
     \<lparr>MAX_CHAIN_DEPTH = 5,
      ALLOWED_SIGNATURE_ALGORITHMS =
        [''SHA256withRSA'', ''SHA384withRSA'', ''SHA512withRSA'', ''ECDSA_SHA256'', ''ECDSA_SHA384''],
      REQUIRED_KEY_USAGE = [''digitalSignature'', ''keyEncipherment'']\<rparr>"

text \<open>
  A validator instance: its configuration and the methods \<^verbatim>\<open>validateCertificate\<close> calls
  on \<^verbatim>\<open>this\<close>. None of these methods is defined in the sources, and neither is the
  certificate type, so both are parameters: \<open>'cert\<close> is whatever \<^verbatim>\<open>parseCertificate\<close>
  returns, and every method may throw. \<^verbatim>\<open>isWithinValidityPeriod\<close> is called with the
  certificate alone; it is given the reading of the wall clock as well, since it has
  nothing else to compare the validity window with.
\<close>

record 'cert X509CertificateValidator =
  validationConfig :: ValidationConfig
  parseCertificate :: "string \<Rightarrow> 'cert attempt"
  isWithinValidityPeriod :: "int \<Rightarrow> 'cert \<Rightarrow> bool attempt"
  isAllowedSignatureAlgorithm :: "'cert \<Rightarrow> bool attempt"
  validateKeyUsage :: "'cert \<Rightarrow> CertificatePurpose \<Rightarrow> bool attempt"
  validateCertificateSignature :: "'cert \<Rightarrow> 'cert \<Rightarrow> bool attempt"
  verifyRootCA :: "'cert \<Rightarrow> bool attempt"

text \<open>
  Modelled from the spec: \<^verbatim>\<open>createValidationFailure\<close> is not defined in the sources. It
  builds the failed result of the declared \<^verbatim>\<open>CertificateValidationResult\<close> interface:
  \<^verbatim>\<open>valid\<close> false, \<^verbatim>\<open>error\<close> the failure code, no \<^verbatim>\<open>details\<close>. The interface has no
  field for the caught error passed as second argument.
\<close>

definition createValidationFailure :: "string \<Rightarrow> string option \<Rightarrow> CertificateValidationResult" where
  "createValidationFailure code caught = \<lparr>valid = False, details = None, error = Some code\<rparr>"

text \<open>
  One guarded step of the loop body, \<^verbatim>\<open>if (!check) return failure(code)\<close>: the outcome of
  a step is a thrown error, \<open>Returns (Some r)\<close> when the function returns \<open>r\<close> at this
  step, or what the rest of the body does.
\<close>

definition requireCheck ::
  "bool attempt \<Rightarrow> string \<Rightarrow> CertificateValidationResult option attempt
     \<Rightarrow> CertificateValidationResult option attempt" where
  "requireCheck check code rest =
     (case check of
        Throws e \<Rightarrow> Throws e
      | Returns ok \<Rightarrow>
          if \<not> ok then Returns (Some (createValidationFailure code None)) else rest)"

text \<open>The body of the loop at index \<open>i\<close>; \<open>Returns None\<close> goes on to the next index.\<close>

definition checkCertificate ::
  "'cert X509CertificateValidator \<Rightarrow> int \<Rightarrow> CertificatePurpose \<Rightarrow> string list \<Rightarrow> nat
     \<Rightarrow> CertificateValidationResult option attempt" where
  "checkCertificate v now purpose chain i =
     (case parseCertificate v (chain ! i) of
        Throws e \<Rightarrow> Throws e
      | Returns currentCert \<Rightarrow>
          requireCheck (isWithinValidityPeriod v now currentCert) ''CERTIFICATE_EXPIRED''
         (requireCheck (isAllowedSignatureAlgorithm v currentCert) ''UNSUPPORTED_SIGNATURE_ALGORITHM''
         (requireCheck (validateKeyUsage v currentCert purpose) ''INVALID_KEY_USAGE''
         (let rootStep =
                (if i = length chain - 1
                 then requireCheck (verifyRootCA v currentCert) ''UNTRUSTED_ROOT'' (Returns None)
                 else Returns None)
          in if i > 0
             then (case parseCertificate v (chain ! (i - 1)) of
                     Throws e \<Rightarrow> Throws e
                   | Returns parentCert \<Rightarrow>
                       requireCheck (validateCertificateSignature v currentCert parentCert)
                         ''INVALID_SIGNATURE'' rootStep)
             else rootStep))))"

text \<open>\<^verbatim>\<open>for (let i = 0; i < certificateChain.length; i++)\<close>, entered at index \<open>i\<close>.\<close>

function validateFrom ::
  "'cert X509CertificateValidator \<Rightarrow> int \<Rightarrow> CertificatePurpose \<Rightarrow> string list \<Rightarrow> nat
     \<Rightarrow> CertificateValidationResult option attempt" where
  "validateFrom v now purpose chain i =
     (if i < length chain
      then (case checkCertificate v now purpose chain i of
              Throws e \<Rightarrow> Throws e
            | Returns (Some failure) \<Rightarrow> Returns (Some failure)
            | Returns None \<Rightarrow> validateFrom v now purpose chain (Suc i))
      else Returns None)"
  by pat_completeness auto
termination
  by (relation "measure (\<lambda>(v, now, purpose, chain, i). length chain - i)") auto

declare validateFrom.simps [simp del]

text \<open>
  \<^verbatim>\<open>X509CertificateValidator.validateCertificate\<close>. \<open>now\<close> is the reading of the wall
  clock during the call: the source takes the chain and the purpose only and calls
  \<^verbatim>\<open>Date.now()\<close> itself.
\<close>

definition validateCertificate ::
  "'cert X509CertificateValidator \<Rightarrow> int \<Rightarrow> string list \<Rightarrow> CertificatePurpose
     \<Rightarrow> CertificateValidationResult" where
  "validateCertificate v now certChain purpose =
     (if length certChain > MAX_CHAIN_DEPTH (validationConfig v)
      then createValidationFailure ''CHAIN_TOO_DEEP'' None
      else (case validateFrom v now purpose certChain 0 of
              Throws e \<Rightarrow> createValidationFailure ''VALIDATION_ERROR'' (Some e)
            | Returns (Some failure) \<Rightarrow> failure
            | Returns None \<Rightarrow>
                \<lparr>valid = True,
                 details = Some \<lparr>chainLength = length certChain, validationTimestamp = now\<rparr>,
                 error = None\<rparr>))"

subsection \<open>A reference instance of the absent methods\<close>

text \<open>
  Modelled from the spec: the certificate of the data model (subject and issuer identity,
  validity window, signature algorithm, key-usage flags) and the checks of the chain
  validator as the specification words them. \<^verbatim>\<open>parseCertificate\<close> reads the encoded
  certificate from a table and throws on anything else; a certificate's signature verifies
  under the certificate that names it as issuer; trust anchors are the subjects of the
  trusted roots.
\<close>

record Certificate =
  subject :: string
  issuer :: string
  notBefore :: int
  notAfter :: int
  signatureAlgorithm :: string
  keyUsage :: "string list"

definition referenceValidator ::
  "ValidationConfig \<Rightarrow> (string \<times> Certificate) list \<Rightarrow> string list \<Rightarrow> Certificate X509CertificateValidator" where
  "referenceValidator config encoded trustAnchors =
     \<lparr>validationConfig = config,
      parseCertificate = (\<lambda>text. case map_of encoded text of
                                   None \<Rightarrow> Throws ''malformed certificate''
                                 | Some cert \<Rightarrow> Returns cert),
      isWithinValidityPeriod = (\<lambda>now cert. Returns (notBefore cert \<le> now \<and> now \<le> notAfter cert)),
      isAllowedSignatureAlgorithm =
        (\<lambda>cert. Returns (signatureAlgorithm cert \<in> set (ALLOWED_SIGNATURE_ALGORITHMS config))),
      validateKeyUsage =
        (\<lambda>cert purpose. Returns (list_all (\<lambda>flag. flag \<in> set (keyUsage cert)) (REQUIRED_KEY_USAGE config))),
      validateCertificateSignature =
        (\<lambda>currentCert parentCert. Returns (issuer parentCert = subject currentCert)),
      verifyRootCA = (\<lambda>cert. Returns (subject cert \<in> set trustAnchors))\<rparr>"

text \<open>An instance whose every method throws: any call of a method is seen in the result.\<close>

definition throwingValidator :: "ValidationConfig \<Rightarrow> unit X509CertificateValidator" where
  "throwingValidator config =
     \<lparr>validationConfig = config,
      parseCertificate = (\<lambda>text. Throws ''parseCertificate called''),
      isWithinValidityPeriod = (\<lambda>now cert. Throws ''isWithinValidityPeriod called''),
      isAllowedSignatureAlgorithm = (\<lambda>cert. Throws ''isAllowedSignatureAlgorithm called''),
      validateKeyUsage = (\<lambda>cert purpose. Throws ''validateKeyUsage called''),
      validateCertificateSignature = (\<lambda>currentCert parentCert. Throws ''validateCertificateSignature called''),
      verifyRootCA = (\<lambda>cert. Throws ''verifyRootCA called'')\<rparr>"

text \<open>
  Certificate \<open>j\<close> of the chain passes the checks the loop applies to a certificate that
  is not the last one: it parses, lies in its validity window, uses an allowed algorithm,
  carries the key usage and, from index 1 on, passes the signature check against its
  predecessor.
\<close>

definition passesOwnChecks ::
  "'cert X509CertificateValidator \<Rightarrow> int \<Rightarrow> CertificatePurpose \<Rightarrow> string list \<Rightarrow> nat \<Rightarrow> bool" where
  "passesOwnChecks v now purpose chain j =
     (case parseCertificate v (chain ! j) of
        Throws e \<Rightarrow> False
      | Returns cert \<Rightarrow>
          isWithinValidityPeriod v now cert = Returns True \<and>
          isAllowedSignatureAlgorithm v cert = Returns True \<and>
          validateKeyUsage v cert purpose = Returns True \<and>
          (j > 0 \<longrightarrow>
             (case parseCertificate v (chain ! (j - 1)) of
                Throws e \<Rightarrow> False
              | Returns parent \<Rightarrow> validateCertificateSignature v cert parent = Returns True)))"

text \<open>Certificate \<open>k\<close> of the chain parses and the clock reading is outside its validity window.\<close>

definition outsideValidityPeriod ::
  "'cert X509CertificateValidator \<Rightarrow> int \<Rightarrow> string list \<Rightarrow> nat \<Rightarrow> bool" where
  "outsideValidityPeriod v now chain k =
     (case parseCertificate v (chain ! k) of
        Throws e \<Rightarrow> False
      | Returns cert \<Rightarrow> isWithinValidityPeriod v now cert = Returns False)"

text \<open>
  Certificate \<open>k\<close> of the chain passes the checks before the named one and fails that one:
  the algorithm check, the key-usage check, the signature check against its predecessor.
\<close>

definition failsAlgorithmCheck ::
  "'cert X509CertificateValidator \<Rightarrow> int \<Rightarrow> string list \<Rightarrow> nat \<Rightarrow> bool" where
  "failsAlgorithmCheck v now chain k =
     (case parseCertificate v (chain ! k) of
        Throws e \<Rightarrow> False
      | Returns cert \<Rightarrow>
          isWithinValidityPeriod v now cert = Returns True \<and>
          isAllowedSignatureAlgorithm v cert = Returns False)"

definition failsKeyUsageCheck ::
  "'cert X509CertificateValidator \<Rightarrow> int \<Rightarrow> CertificatePurpose \<Rightarrow> string list \<Rightarrow> nat \<Rightarrow> bool" where
  "failsKeyUsageCheck v now purpose chain k =
     (case parseCertificate v (chain ! k) of
        Throws e \<Rightarrow> False
      | Returns cert \<Rightarrow>
          isWithinValidityPeriod v now cert = Returns True \<and>
          isAllowedSignatureAlgorithm v cert = Returns True \<and>
          validateKeyUsage v cert purpose = Returns False)"

definition failsSignatureCheck ::
  "'cert X509CertificateValidator \<Rightarrow> int \<Rightarrow> CertificatePurpose \<Rightarrow> string list \<Rightarrow> nat \<Rightarrow> bool" where
  "failsSignatureCheck v now purpose chain k =
     (case parseCertificate v (chain ! k) of
        Throws e \<Rightarrow> False
      | Returns cert \<Rightarrow>
          isWithinValidityPeriod v now cert = Returns True \<and>
          isAllowedSignatureAlgorithm v cert = Returns True \<and>
          validateKeyUsage v cert purpose = Returns True \<and>
          k > 0 \<and>
          (case parseCertificate v (chain ! (k - 1)) of
             Throws e \<Rightarrow> False
           | Returns parent \<Rightarrow> validateCertificateSignature v cert parent = Returns False))"

section \<open>Example data\<close>

definition exampleCredentials :: CAC_PIV_Credentials where
  "exampleCredentials =
     \<lparr>cardSerialNumber = ''1001'',
      organizationUnit = ''DLA_001'',
      userDistinguishedName = ''CN=DOE.JANE.1001'',
      accessLevel = PRIVILEGED,
      certificateChain = ''PEM:leaf''\<rparr>"

definition goodLeaf :: Certificate where
  "goodLeaf =
     \<lparr>subject = ''CN=DOE.JANE.1001'', issuer = ''CN=Root CA'',
      notBefore = 0, notAfter = 1000,
      signatureAlgorithm = ''SHA256withRSA'',
      keyUsage = [''digitalSignature'', ''keyEncipherment'']\<rparr>"

definition weakLeaf :: Certificate where
  "weakLeaf = goodLeaf\<lparr>signatureAlgorithm := ''MD5withRSA''\<rparr>"

definition bareLeaf :: Certificate where
  "bareLeaf = goodLeaf\<lparr>keyUsage := [''digitalSignature'']\<rparr>"

definition goodRoot :: Certificate where
  "goodRoot =
     \<lparr>subject = ''CN=Root CA'', issuer = ''CN=Root CA'',
      notBefore = 0, notAfter = 1000,
      signatureAlgorithm = ''SHA384withRSA'',
      keyUsage = [''digitalSignature'', ''keyEncipherment'', ''keyCertSign'']\<rparr>"

definition expiredRoot :: Certificate where
  "expiredRoot = goodRoot\<lparr>notAfter := 50\<rparr>"

definition otherRoot :: Certificate where
  "otherRoot = goodRoot\<lparr>subject := ''CN=Other CA'', issuer := ''CN=Other CA''\<rparr>"

definition exampleValidator :: "Certificate X509CertificateValidator" where
  "exampleValidator =
     referenceValidator sourceValidationConfig
       [(''PEM:leaf'', goodLeaf), (''PEM:weak-leaf'', weakLeaf), (''PEM:bare-leaf'', bareLeaf),
        (''PEM:root'', goodRoot), (''PEM:expired-root'', expiredRoot),
        (''PEM:other-root'', otherRoot)]
       [''CN=Root CA'']"

text \<open>
  A manager holding the example profile; a revision of that profile without the
  \<^verbatim>\<open>BID_SUBMISSION\<close> entry; and a version of it with a workflow type of its own that is
  named \<^verbatim>\<open>toString\<close>.
\<close>

definition exampleManager :: GovernmentAuthenticationManager where
  "exampleManager = registerAgencyAuthenticationProfile newManager defenseLogisticsAgencyProfile"

definition revisedProfile :: AgencyAuthenticationProfile where
  "revisedProfile =
     defenseLogisticsAgencyProfile
       \<lparr>workflowAccessControls := map_of [(''BID_TRACKING'', [PRIVILEGED, EXECUTIVE])]\<rparr>"

definition firstVersionProfile :: AgencyAuthenticationProfile where
  "firstVersionProfile =
     defenseLogisticsAgencyProfile
       \<lparr>workflowAccessControls :=
          map_of [(''BID_SUBMISSION'', [STANDARD, PRIVILEGED]),
                  (''toString'', [PRIVILEGED])]\<rparr>"

definition exampleToken :: SecureToken where
  "exampleToken =
     \<lparr>tokenId = ''0fa0ff'', userId = ''CN=DOE.JANE.1001'', tokenAgencyId = ''DLA_001'',
      tokenAccessLevel = PRIVILEGED, createdAt = 1000, expiresAt = 1801000,
      metadata = \<lparr>ipAddress = ''10.0.0.1'', deviceFingerprint = ''c0ffee''\<rparr>\<rparr>"

section \<open>Properties of the policy engine\<close>

lemmas policy_defs = exampleManager_def registerAgencyAuthenticationProfile_def newManager_def
  defenseLogisticsAgencyProfile_def getAgencyProfile_def exampleCredentials_def revisedProfile_def
  firstVersionProfile_def

lemmas access_defs = authorizeWorkflowAccess_def permittedAccessLevels_def getProperty_def
  arrayIncludes_def objectPrototypeKeys_def

text \<open>The four ways a call of \<^verbatim>\<open>authorizeWorkflowAccess\<close> ends.\<close>

lemma authorizeWorkflowAccess_unknown:
  "getAgencyProfile m (organizationUnit c) = None \<Longrightarrow>
   authorizeWorkflowAccess m c wt = Returns \<lparr>authorized = False, reason = ''UNKNOWN_AGENCY''\<rparr>"
  by (simp add: authorizeWorkflowAccess_def)

lemma authorizeWorkflowAccess_own_entry:
  "getAgencyProfile m (organizationUnit c) = Some p \<Longrightarrow>
   workflowAccessControls p wt = Some levels \<Longrightarrow>
   authorizeWorkflowAccess m c wt =
     Returns \<lparr>authorized = (accessLevel c \<in> set levels),
              reason = (if accessLevel c \<in> set levels then ''ACCESS_GRANTED''
                        else ''INSUFFICIENT_PRIVILEGES'')\<rparr>"
  by (simp add: authorizeWorkflowAccess_def permittedAccessLevels_def getProperty_def
        arrayIncludes_def)

lemma authorizeWorkflowAccess_absent_entry:
  "getAgencyProfile m (organizationUnit c) = Some p \<Longrightarrow>
   workflowAccessControls p wt = None \<Longrightarrow> wt \<notin> set objectPrototypeKeys \<Longrightarrow>
   authorizeWorkflowAccess m c wt =
     Returns \<lparr>authorized = False, reason = ''INSUFFICIENT_PRIVILEGES''\<rparr>"
  by (simp add: authorizeWorkflowAccess_def permittedAccessLevels_def getProperty_def
        arrayIncludes_def)

lemma authorizeWorkflowAccess_inherited_entry:
  "getAgencyProfile m (organizationUnit c) = Some p \<Longrightarrow>
   workflowAccessControls p wt = None \<Longrightarrow> wt \<in> set objectPrototypeKeys \<Longrightarrow>
   authorizeWorkflowAccess m c wt =
     Throws ''TypeError: permittedAccessLevels.includes is not a function''"
  by (simp add: authorizeWorkflowAccess_def permittedAccessLevels_def getProperty_def
        arrayIncludes_def)

lemma authorizeWorkflowAccess_outcomes:
  "authorizeWorkflowAccess m c wt \<in>
     {Returns \<lparr>authorized = False, reason = ''UNKNOWN_AGENCY''\<rparr>,
      Returns \<lparr>authorized = True, reason = ''ACCESS_GRANTED''\<rparr>,
      Returns \<lparr>authorized = False, reason = ''INSUFFICIENT_PRIVILEGES''\<rparr>,
      Throws ''TypeError: permittedAccessLevels.includes is not a function''}"
  by (simp add: authorizeWorkflowAccess_def permittedAccessLevels_def getProperty_def
        arrayIncludes_def split: option.splits)

text \<open>
  C3 fails on one case the code misses. The read
  \<^verbatim>\<open>workflowAccessControls[workflowType] || []\<close> is meant to give the empty array for a
  workflow type the profile does not list, but for a workflow type named like a member of
  \<^verbatim>\<open>Object.prototype\<close> it gives that member, and \<^verbatim>\<open>.includes\<close> on it throws. With the
  example profile registered and the example credential, the workflow types
  \<^verbatim>\<open>toString\<close>, \<^verbatim>\<open>constructor\<close> and \<^verbatim>\<open>__proto__\<close>, none of them listed by the profile,
  end in a \<^verbatim>\<open>TypeError\<close> where an unlisted workflow type of any other name is answered
  \<^verbatim>\<open>INSUFFICIENT_PRIVILEGES\<close>.
\<close>

theorem authorizeWorkflowAccess_inherited_key:
  "getAgencyProfile exampleManager (organizationUnit exampleCredentials) =
     Some defenseLogisticsAgencyProfile \<and>
   workflowAccessControls defenseLogisticsAgencyProfile ''toString'' = None \<and>
   authorizeWorkflowAccess exampleManager exampleCredentials ''toString'' =
     Throws ''TypeError: permittedAccessLevels.includes is not a function'' \<and>
   authorizeWorkflowAccess exampleManager exampleCredentials ''constructor'' =
     Throws ''TypeError: permittedAccessLevels.includes is not a function'' \<and>
   authorizeWorkflowAccess exampleManager exampleCredentials ''__proto__'' =
     Throws ''TypeError: permittedAccessLevels.includes is not a function'' \<and>
   workflowAccessControls defenseLogisticsAgencyProfile ''BID_REVIEW'' = None \<and>
   authorizeWorkflowAccess exampleManager exampleCredentials ''BID_REVIEW'' =
     Returns \<lparr>authorized = False, reason = ''INSUFFICIENT_PRIVILEGES''\<rparr>"
  by (simp add: access_defs policy_defs)

text \<open>
  Registration is an upsert keyed by the agency id: the registry afterwards holds the
  profile under its id and is unchanged at every other id. A second registration under
  the same id leaves no trace of the first, and the outcome of every authorization call
  is then the one the second profile alone gives.
\<close>

lemma register_lookup:
  "getAgencyProfile (registerAgencyAuthenticationProfile m p) key =
     (if key = agencyId p then Some p else getAgencyProfile m key)"
  by (simp add: registerAgencyAuthenticationProfile_def getAgencyProfile_def)

lemma register_overwrites:
  "agencyId p2 = agencyId p1 \<Longrightarrow>
   registerAgencyAuthenticationProfile (registerAgencyAuthenticationProfile m p1) p2 =
   registerAgencyAuthenticationProfile m p2"
  by (simp add: registerAgencyAuthenticationProfile_def)

lemma register_idempotent:
  "registerAgencyAuthenticationProfile (registerAgencyAuthenticationProfile m p) p =
   registerAgencyAuthenticationProfile m p"
  by (simp add: registerAgencyAuthenticationProfile_def)

lemma register_other_agency:
  "organizationUnit c \<noteq> agencyId p \<Longrightarrow>
   authorizeWorkflowAccess (registerAgencyAuthenticationProfile m p) c wt =
   authorizeWorkflowAccess m c wt"
  by (simp add: authorizeWorkflowAccess_def register_lookup)

lemma register_second_decides:
  "agencyId p2 = agencyId p1 \<Longrightarrow>
   authorizeWorkflowAccess
     (registerAgencyAuthenticationProfile (registerAgencyAuthenticationProfile m p1) p2) c wt =
   authorizeWorkflowAccess (registerAgencyAuthenticationProfile m p2) c wt"
  by (simp add: register_overwrites)

text \<open>
  C8 fails on the case C3 fails on. The first version of the profile lists a workflow type
  named \<^verbatim>\<open>toString\<close> and permits it to the example credential; the second version,
  registered under the same agency id, omits it. The second registration does replace the
  first, but the request is then not answered with a denial: the call throws. A replaced
  workflow type of another name (\<^verbatim>\<open>BID_SUBMISSION\<close>, omitted by the revised profile) is
  denied.
\<close>

theorem register_replaces_inherited_key:
  "agencyId defenseLogisticsAgencyProfile = agencyId firstVersionProfile \<and>
   authorizeWorkflowAccess
     (registerAgencyAuthenticationProfile newManager firstVersionProfile)
     exampleCredentials ''toString'' = Returns \<lparr>authorized = True, reason = ''ACCESS_GRANTED''\<rparr> \<and>
   workflowAccessControls defenseLogisticsAgencyProfile ''toString'' = None \<and>
   getAgencyProfile
     (registerAgencyAuthenticationProfile
        (registerAgencyAuthenticationProfile newManager firstVersionProfile)
        defenseLogisticsAgencyProfile)
     (organizationUnit exampleCredentials) = Some defenseLogisticsAgencyProfile \<and>
   authorizeWorkflowAccess
     (registerAgencyAuthenticationProfile
        (registerAgencyAuthenticationProfile newManager firstVersionProfile)
        defenseLogisticsAgencyProfile)
     exampleCredentials ''toString'' =
     Throws ''TypeError: permittedAccessLevels.includes is not a function'' \<and>
   authorizeWorkflowAccess
     (registerAgencyAuthenticationProfile
        (registerAgencyAuthenticationProfile newManager defenseLogisticsAgencyProfile)
        revisedProfile)
     exampleCredentials ''BID_SUBMISSION'' =
     Returns \<lparr>authorized = False, reason = ''INSUFFICIENT_PRIVILEGES''\<rparr>"
  by (simp add: access_defs policy_defs)

text \<open>
  C2, as stated, fails: the example profile sets \<^verbatim>\<open>mandatoryRoleVerification\<close> and
  declares a mandatory additional step, and the example credential is granted
  \<^verbatim>\<open>BID_SUBMISSION\<close> by a call that is given no secondary evidence.
\<close>

theorem authorizeWorkflowAccess_secondary_counterexample:
  "requiresSecondaryVerification defenseLogisticsAgencyProfile \<and>
   getAgencyProfile exampleManager (organizationUnit exampleCredentials) =
     Some defenseLogisticsAgencyProfile \<and>
   authorizeWorkflowAccess exampleManager exampleCredentials ''BID_SUBMISSION'' =
     Returns \<lparr>authorized = True, reason = ''ACCESS_GRANTED''\<rparr>"
  by (simp add: requiresSecondaryVerification_def access_defs policy_defs)

text \<open>
  C2, amended. \<^verbatim>\<open>authorizeWorkflowAccess\<close> takes no secondary evidence and does not
  read the profile's authentication requirements: it never answers
  \<^verbatim>\<open>SECONDARY_VERIFICATION_REQUIRED\<close>, whether it grants or denies, and its outcome is
  the same when the registered profile's \<^verbatim>\<open>authenticationRequirements\<close> are replaced by
  any others.
\<close>

theorem authorizeWorkflowAccess_ignores_requirements:
  "authorizeWorkflowAccess m c wt \<noteq>
     Returns \<lparr>authorized = granted, reason = ''SECONDARY_VERIFICATION_REQUIRED''\<rparr> \<and>
   authorizeWorkflowAccess m c wt \<in>
     {Returns \<lparr>authorized = False, reason = ''UNKNOWN_AGENCY''\<rparr>,
      Returns \<lparr>authorized = True, reason = ''ACCESS_GRANTED''\<rparr>,
      Returns \<lparr>authorized = False, reason = ''INSUFFICIENT_PRIVILEGES''\<rparr>,
      Throws ''TypeError: permittedAccessLevels.includes is not a function''} \<and>
   authorizeWorkflowAccess
     (registerAgencyAuthenticationProfile m (p\<lparr>authenticationRequirements := r\<rparr>)) c wt =
   authorizeWorkflowAccess (registerAgencyAuthenticationProfile m p) c wt"
proof -
  have outcomes: "authorizeWorkflowAccess m c wt \<in>
     {Returns \<lparr>authorized = False, reason = ''UNKNOWN_AGENCY''\<rparr>,
      Returns \<lparr>authorized = True, reason = ''ACCESS_GRANTED''\<rparr>,
      Returns \<lparr>authorized = False, reason = ''INSUFFICIENT_PRIVILEGES''\<rparr>,
      Throws ''TypeError: permittedAccessLevels.includes is not a function''}"
    by (rule authorizeWorkflowAccess_outcomes)
  then have never: "authorizeWorkflowAccess m c wt \<noteq>
     Returns \<lparr>authorized = granted, reason = ''SECONDARY_VERIFICATION_REQUIRED''\<rparr>"
    by auto
  have same: "authorizeWorkflowAccess
     (registerAgencyAuthenticationProfile m (p\<lparr>authenticationRequirements := r\<rparr>)) c wt =
   authorizeWorkflowAccess (registerAgencyAuthenticationProfile m p) c wt"
    by (simp add: authorizeWorkflowAccess_def register_lookup permittedAccessLevels_def)
  from never outcomes same show ?thesis by blast
qed

section \<open>Properties of the session tokens\<close>

text \<open>
  C6. \<^verbatim>\<open>validateToken\<close> answers invalid with \<^verbatim>\<open>TOKEN_EXPIRED\<close> exactly when the clock
  reading is past \<^verbatim>\<open>expiresAt\<close>, so also one millisecond after it; at every other
  reading it answers valid with remaining validity \<^verbatim>\<open>expiresAt - now\<close>.
\<close>

theorem validateToken_expiry:
  "(validateToken now token =
      \<lparr>tokenValid = False, tokenReason = Some ''TOKEN_EXPIRED'', remainingValidity = None\<rparr>
      \<longleftrightarrow> now > expiresAt token) \<and>
   (\<not> now > expiresAt token \<longrightarrow>
      validateToken now token =
        \<lparr>tokenValid = True, tokenReason = None, remainingValidity = Some (expiresAt token - now)\<rparr>) \<and>
   validateToken (expiresAt token + 1) token =
     \<lparr>tokenValid = False, tokenReason = Some ''TOKEN_EXPIRED'', remainingValidity = None\<rparr>"
  by (simp add: validateToken_def)

theorem validateToken_expiry_witness:
  "\<not> 1000 > expiresAt exampleToken \<and>
   validateToken 1000 exampleToken =
     \<lparr>tokenValid = True, tokenReason = None, remainingValidity = Some 1800000\<rparr> \<and>
   1801001 > expiresAt exampleToken \<and>
   validateToken 1801001 exampleToken =
     \<lparr>tokenValid = False, tokenReason = Some ''TOKEN_EXPIRED'', remainingValidity = None\<rparr>"
proof -
  have fresh: "\<not> 1000 > expiresAt exampleToken" and late: "1801001 > expiresAt exampleToken"
    by (simp_all add: exampleToken_def)
  have at: "expiresAt exampleToken = 1801000" by (simp add: exampleToken_def)
  from validateToken_expiry [of 1000 exampleToken] validateToken_expiry [of 1801001 exampleToken]
    fresh late at
  show ?thesis by simp
qed

subsection \<open>Token identifiers\<close>

lemma hexDigit_inj: "a < 16 \<Longrightarrow> b < 16 \<Longrightarrow> hexDigit a = hexDigit b \<Longrightarrow> a = b"
proof -
  assume a: "a < 16" and b: "b < 16" and eq: "hexDigit a = hexDigit b"
  have d: "distinct ''0123456789abcdef''" by simp
  have "a < length ''0123456789abcdef''" "b < length ''0123456789abcdef''"
    using a b by simp_all
  with d eq show "a = b"
    unfolding hexDigit_def by (simp only: nth_eq_iff_index_eq)
qed

lemma byte_nibbles: "unat (b :: 8 word) div 16 < 16"
proof -
  have "unat b < 2 ^ 8" using unsigned_less [of b] by simp
  then show ?thesis by simp
qed

lemma hexOfByte_inj: "hexOfByte a = hexOfByte b \<Longrightarrow> a = b"
proof -
  assume "hexOfByte a = hexOfByte b"
  then have hi: "hexDigit (unat a div 16) = hexDigit (unat b div 16)"
    and lo: "hexDigit (unat a mod 16) = hexDigit (unat b mod 16)"
    by (simp_all add: hexOfByte_def)
  have "unat a div 16 = unat b div 16"
    using hi byte_nibbles by (intro hexDigit_inj) auto
  moreover have "unat a mod 16 = unat b mod 16"
    using lo by (intro hexDigit_inj) auto
  ultimately have "unat a = unat b"
    by (metis div_mult_mod_eq)
  then show "a = b" by (simp add: word_unat_eq_iff)
qed

lemma length_hexOfByte [simp]: "length (hexOfByte b) = 2"
  by (simp add: hexOfByte_def)

lemma toHex_Cons: "toHex (b # bs) = hexOfByte b @ toHex bs"
  by (simp add: toHex_def)

lemma length_toHex: "length (toHex bs) = 2 * length bs"
  by (induction bs) (simp_all add: toHex_def)

lemma toHex_inj: "toHex xs = toHex ys \<Longrightarrow> xs = ys"
proof (induction xs arbitrary: ys)
  case Nil
  then have "length (toHex ys) = 0" by (simp add: toHex_def)
  then show ?case by (simp add: length_toHex)
next
  case (Cons x xs)
  from Cons.prems have "length (toHex ys) = 2 * Suc (length xs)"
    by (metis length_toHex length_Cons)
  then obtain y ys' where ys: "ys = y # ys'"
    by (cases ys) (simp_all add: length_toHex)
  with Cons.prems have "hexOfByte x @ toHex xs = hexOfByte y @ toHex ys'"
    by (simp add: toHex_Cons)
  then have "hexOfByte x = hexOfByte y" "toHex xs = toHex ys'"
    by simp_all
  with Cons.IH ys show ?case by (simp add: hexOfByte_inj)
qed

text \<open>
  The identifiers of \<^verbatim>\<open>SecureTokenManager\<close>: 64 characters for the 32 bytes the random
  source returns, and as many distinct identifiers as distinct outputs of the source, for
  10,000 issuances as for any other number.
\<close>

lemma generateTokenId_length:
  "length randomBytes = 32 \<Longrightarrow> length (generateTokenId randomBytes) = 64"
  by (simp add: generateTokenId_def length_toHex)

lemma generateTokenId_distinct:
  "distinct outputs \<Longrightarrow> distinct (map generateTokenId outputs)"
  by (simp add: distinct_map inj_on_def generateTokenId_def toHex_inj)

lemma generateTokenId_issuances:
  assumes "length outputs = 10000" and "distinct outputs"
    and "\<forall>randomBytes \<in> set outputs. length randomBytes = 32"
  shows "length (map generateTokenId outputs) = 10000 \<and>
         distinct (map generateTokenId outputs) \<and>
         (\<forall>t \<in> set (map generateTokenId outputs). length t = 64)"
  using assms by (auto simp: generateTokenId_distinct generateTokenId_length)

lemma decimal_small: "n < 10 \<Longrightarrow> decimal n = [decimalDigit n]"
  by (simp add: decimal.simps)

lemma decimal_large: "\<not> n < 10 \<Longrightarrow> decimal n = decimal (n div 10) @ [decimalDigit (n mod 10)]"
  by (subst decimal.simps) simp

text \<open>
  C1 on the token the credential verifier issues. \<^verbatim>\<open>generateSecureSessionToken\<close> draws
  nothing from a random source: the token is the clock reading and the card serial number
  in clear. Two issuances for the same card within one millisecond return the same token,
  and the length of the token follows the length of the serial number.
\<close>

theorem generateSecureSessionToken_repeats:
  "generateSecureSessionToken 1700000000000 exampleCredentials = ''GOV_AUTH_1700000000000_1001'' \<and>
   \<not> distinct (map (\<lambda>(now, credentials). generateSecureSessionToken now credentials)
                 [(1700000000000, exampleCredentials), (1700000000000, exampleCredentials)]) \<and>
   length (generateSecureSessionToken 1700000000000 exampleCredentials) \<noteq>
   length (generateSecureSessionToken 1700000000000 (exampleCredentials\<lparr>cardSerialNumber := ''10010''\<rparr>))"
  by (simp add: generateSecureSessionToken_def numberToString_def exampleCredentials_def
        decimalDigit_def decimal_small decimal_large)

section \<open>Properties of the credential verifier\<close>

text \<open>
  Every credential is authenticated: none of the three checks of the source fails, so the
  list of failed validations is empty at every call and no \<^verbatim>\<open>errorDetails\<close> are
  returned. The token handed out is the one of \<^verbatim>\<open>generateSecureSessionToken\<close>.
\<close>

lemma verifyCAC_PIV_Credentials_source:
  "verifyCAC_PIV_Credentials now credentials =
     \<lparr>authenticated = True, errorDetails = None,
      sessionToken = Some (generateSecureSessionToken now credentials),
      userProfile = Some \<lparr>profileUserId = userDistinguishedName credentials,
                          profileAccessLevel = accessLevel credentials,
                          agency = extractAgencyFromOrganizationalUnit (organizationUnit credentials)\<rparr>\<rparr>"
  by (simp add: verifyCAC_PIV_Credentials_def validateCertificateChain_def
        verifyOrganizationalUnit_def checkAccessLevelAuthorization_def)

section \<open>Properties of the certificate chain validator\<close>

lemmas example_defs = exampleValidator_def referenceValidator_def sourceValidationConfig_def
  goodLeaf_def weakLeaf_def bareLeaf_def goodRoot_def expiredRoot_def otherRoot_def

lemma validateFrom_done:
  "\<not> i < length chain \<Longrightarrow> validateFrom v now purpose chain i = Returns None"
  by (simp add: validateFrom.simps)

lemma validateFrom_step:
  "i < length chain \<Longrightarrow>
   validateFrom v now purpose chain i =
     (case checkCertificate v now purpose chain i of
        Throws e \<Rightarrow> Throws e
      | Returns (Some failure) \<Rightarrow> Returns (Some failure)
      | Returns None \<Rightarrow> validateFrom v now purpose chain (Suc i))"
  by (subst validateFrom.simps) simp

text \<open>Indices whose certificates pass are stepped over.\<close>

lemma validateFrom_skip:
  assumes "\<forall>j. i \<le> j \<and> j < k \<longrightarrow> checkCertificate v now purpose chain j = Returns None"
    and "i \<le> k" and "k \<le> length chain"
  shows "validateFrom v now purpose chain i = validateFrom v now purpose chain k"
  using assms
proof (induction "k - i" arbitrary: i)
  case 0
  then show ?case by simp
next
  case (Suc d)
  then have lt: "i < k" by arith
  with Suc.prems have here: "checkCertificate v now purpose chain i = Returns None" by simp
  have "validateFrom v now purpose chain (Suc i) = validateFrom v now purpose chain k"
    using Suc.hyps Suc.prems lt by (intro Suc.hyps(1)) auto
  with here lt Suc.prems show ?case
    by (simp add: validateFrom_step)
qed

lemma requireCheck_fails [simp]:
  "requireCheck (Returns False) code rest = Returns (Some (createValidationFailure code None))"
  by (simp add: requireCheck_def)

lemma requireCheck_passes [simp]: "requireCheck (Returns True) code rest = rest"
  by (simp add: requireCheck_def)

lemma requireCheck_throws [simp]: "requireCheck (Throws e) code rest = Throws e"
  by (simp add: requireCheck_def)

text \<open>Every result returned from inside the loop is a failure.\<close>

lemma checkCertificate_invalid:
  "checkCertificate v now purpose chain i = Returns (Some f) \<Longrightarrow> \<not> valid f"
  by (auto simp: checkCertificate_def Let_def requireCheck_def createValidationFailure_def
           split: attempt.splits if_splits)

lemma validateFrom_invalid:
  "validateFrom v now purpose chain i = Returns (Some f) \<Longrightarrow> \<not> valid f"
proof (induction v now purpose chain i rule: validateFrom.induct)
  case (1 v now purpose chain i)
  show ?case
  proof (cases "i < length chain")
    case True
    with "1.prems" "1.IH" show ?thesis
      by (auto simp: validateFrom_step split: attempt.splits option.splits
               dest: checkCertificate_invalid)
  next
    case False
    with "1.prems" show ?thesis by (simp add: validateFrom_done)
  qed
qed

lemma validateCertificate_valid:
  "valid (validateCertificate v now chain purpose) \<Longrightarrow>
   validateCertificate v now chain purpose =
     \<lparr>valid = True,
      details = Some \<lparr>chainLength = length chain, validationTimestamp = now\<rparr>,
      error = None\<rparr>"
  by (auto simp: validateCertificate_def createValidationFailure_def
           split: if_splits attempt.splits option.splits dest: validateFrom_invalid)

lemma passesOwnChecks_continue:
  "passesOwnChecks v now purpose chain j \<Longrightarrow> j < length chain - 1 \<Longrightarrow>
   checkCertificate v now purpose chain j = Returns None"
  by (auto simp: passesOwnChecks_def checkCertificate_def Let_def split: attempt.splits)

lemma outsideValidityPeriod_expired:
  "outsideValidityPeriod v now chain k \<Longrightarrow>
   checkCertificate v now purpose chain k =
     Returns (Some (createValidationFailure ''CERTIFICATE_EXPIRED'' None))"
  by (auto simp: outsideValidityPeriod_def checkCertificate_def split: attempt.splits)

text \<open>
  C4. A chain longer than the configured maximum depth is answered \<^verbatim>\<open>CHAIN_TOO_DEEP\<close>
  whatever the methods of the validator do, also when each of them would throw at its
  first call: no certificate is parsed and no check is applied.
\<close>

theorem validateCertificate_chain_too_deep:
  "length chain > MAX_CHAIN_DEPTH (validationConfig v) \<Longrightarrow>
   validateCertificate v now chain purpose =
     \<lparr>valid = False, details = None, error = Some ''CHAIN_TOO_DEEP''\<rparr> \<and>
   validateCertificate (throwingValidator (validationConfig v)) now chain purpose =
     \<lparr>valid = False, details = None, error = Some ''CHAIN_TOO_DEEP''\<rparr>"
  by (simp add: validateCertificate_def createValidationFailure_def throwingValidator_def)

text \<open>Six certificates against the source's depth of 5.\<close>

theorem validateCertificate_chain_too_deep_witness:
  "length [''a'', ''b'', ''c'', ''d'', ''e'', ''f''] > MAX_CHAIN_DEPTH (validationConfig exampleValidator) \<and>
   validateCertificate exampleValidator 100 [''a'', ''b'', ''c'', ''d'', ''e'', ''f''] AUTHENTICATION =
     \<lparr>valid = False, details = None, error = Some ''CHAIN_TOO_DEEP''\<rparr> \<and>
   validateCertificate (throwingValidator (validationConfig exampleValidator)) 100
       [''a'', ''b'', ''c'', ''d'', ''e'', ''f''] AUTHENTICATION =
     \<lparr>valid = False, details = None, error = Some ''CHAIN_TOO_DEEP''\<rparr>"
proof -
  have deep: "length [''a'', ''b'', ''c'', ''d'', ''e'', ''f''] > MAX_CHAIN_DEPTH (validationConfig exampleValidator)"
    by (simp add: exampleValidator_def referenceValidator_def sourceValidationConfig_def)
  from validateCertificate_chain_too_deep [OF deep, of 100 AUTHENTICATION] deep
  show ?thesis by simp
qed

text \<open>
  C10. The empty chain is answered valid with chain length 0, whatever the methods of the
  validator do and whatever the trust store holds: the loop body and the root check are
  not reached.
\<close>

theorem validateCertificate_empty_chain:
  "validateCertificate v now [] purpose =
     \<lparr>valid = True, details = Some \<lparr>chainLength = 0, validationTimestamp = now\<rparr>, error = None\<rparr> \<and>
   validateCertificate (throwingValidator config) now [] purpose =
     \<lparr>valid = True, details = Some \<lparr>chainLength = 0, validationTimestamp = now\<rparr>, error = None\<rparr>"
  by (simp add: validateCertificate_def validateFrom_done)

text \<open>
  C5, as stated, fails: the loop applies all checks to one certificate before it turns to
  the next. In the chain below the second certificate is expired and the first one, inside
  its validity window, is signed with an algorithm off the allow-list; the answer is
  \<^verbatim>\<open>UNSUPPORTED_SIGNATURE_ALGORITHM\<close>.
\<close>

theorem validateCertificate_order_counterexample:
  "length [''PEM:weak-leaf'', ''PEM:expired-root''] \<le> MAX_CHAIN_DEPTH (validationConfig exampleValidator) \<and>
   outsideValidityPeriod exampleValidator 100 [''PEM:weak-leaf'', ''PEM:expired-root''] 1 \<and>
   validateCertificate exampleValidator 100 [''PEM:weak-leaf'', ''PEM:expired-root''] AUTHENTICATION =
     \<lparr>valid = False, details = None, error = Some ''UNSUPPORTED_SIGNATURE_ALGORITHM''\<rparr> \<and>
   validateCertificate exampleValidator 100 [''PEM:weak-leaf'', ''PEM:expired-root''] AUTHENTICATION \<noteq>
     \<lparr>valid = False, details = None, error = Some ''CERTIFICATE_EXPIRED''\<rparr>"
  by (simp add: validateCertificate_def validateFrom_step checkCertificate_def
        outsideValidityPeriod_def createValidationFailure_def example_defs)

lemma failsAlgorithmCheck_unsupported:
  "failsAlgorithmCheck v now chain k \<Longrightarrow>
   checkCertificate v now purpose chain k =
     Returns (Some (createValidationFailure ''UNSUPPORTED_SIGNATURE_ALGORITHM'' None))"
  by (auto simp: failsAlgorithmCheck_def checkCertificate_def split: attempt.splits)

lemma failsKeyUsageCheck_invalid:
  "failsKeyUsageCheck v now purpose chain k \<Longrightarrow>
   checkCertificate v now purpose chain k =
     Returns (Some (createValidationFailure ''INVALID_KEY_USAGE'' None))"
  by (auto simp: failsKeyUsageCheck_def checkCertificate_def split: attempt.splits)

lemma failsSignatureCheck_invalid:
  "failsSignatureCheck v now purpose chain k \<Longrightarrow>
   checkCertificate v now purpose chain k =
     Returns (Some (createValidationFailure ''INVALID_SIGNATURE'' None))"
  by (auto simp: failsSignatureCheck_def checkCertificate_def Let_def split: attempt.splits)

text \<open>
  The failure returned at the first certificate that does not pass is the result of the
  whole validation; nothing of the later certificates is looked at.
\<close>

lemma first_failure_decides:
  assumes "length chain \<le> MAX_CHAIN_DEPTH (validationConfig v)"
    and "k < length chain"
    and "\<forall>j < k. passesOwnChecks v now purpose chain j"
    and "checkCertificate v now purpose chain k = Returns (Some failure)"
  shows "validateCertificate v now chain purpose = failure"
proof -
  have "\<forall>j. 0 \<le> j \<and> j < k \<longrightarrow> checkCertificate v now purpose chain j = Returns None"
    using assms(2,3) by (auto intro: passesOwnChecks_continue)
  then have "validateFrom v now purpose chain 0 = validateFrom v now purpose chain k"
    using assms(2) by (intro validateFrom_skip) auto
  also have "\<dots> = Returns (Some failure)"
    using assms(2,4) by (simp add: validateFrom_step)
  finally show ?thesis
    using assms(1) by (simp add: validateCertificate_def)
qed

text \<open>
  C5, amended. The checks are applied certificate by certificate, all checks of one
  certificate before any check of the next. For a chain within the depth limit whose
  certificates before index \<open>k\<close> pass their own checks (validity window, algorithm, key
  usage, signature against the predecessor), the failure the loop body returns at
  certificate \<open>k\<close> is the result, whatever the certificates after \<open>k\<close> are: it is
  \<^verbatim>\<open>CERTIFICATE_EXPIRED\<close> when certificate \<open>k\<close> is outside its validity window,
  \<^verbatim>\<open>UNSUPPORTED_SIGNATURE_ALGORITHM\<close> when it is inside the window with an algorithm off
  the allow-list, \<^verbatim>\<open>INVALID_KEY_USAGE\<close> when it fails the key-usage check next, and
  \<^verbatim>\<open>INVALID_SIGNATURE\<close> when it fails the signature check next.
\<close>

theorem validateCertificate_first_failure:
  assumes "length chain \<le> MAX_CHAIN_DEPTH (validationConfig v)"
    and "k < length chain"
    and "\<forall>j < k. passesOwnChecks v now purpose chain j"
  shows "(\<forall>failure. checkCertificate v now purpose chain k = Returns (Some failure) \<longrightarrow>
            validateCertificate v now chain purpose = failure) \<and>
         (outsideValidityPeriod v now chain k \<longrightarrow>
            validateCertificate v now chain purpose =
              \<lparr>valid = False, details = None, error = Some ''CERTIFICATE_EXPIRED''\<rparr>) \<and>
         (failsAlgorithmCheck v now chain k \<longrightarrow>
            validateCertificate v now chain purpose =
              \<lparr>valid = False, details = None, error = Some ''UNSUPPORTED_SIGNATURE_ALGORITHM''\<rparr>) \<and>
         (failsKeyUsageCheck v now purpose chain k \<longrightarrow>
            validateCertificate v now chain purpose =
              \<lparr>valid = False, details = None, error = Some ''INVALID_KEY_USAGE''\<rparr>) \<and>
         (failsSignatureCheck v now purpose chain k \<longrightarrow>
            validateCertificate v now chain purpose =
              \<lparr>valid = False, details = None, error = Some ''INVALID_SIGNATURE''\<rparr>)"
proof -
  note decides = first_failure_decides [OF assms]
  have general: "\<forall>failure. checkCertificate v now purpose chain k = Returns (Some failure) \<longrightarrow>
      validateCertificate v now chain purpose = failure"
    using decides by blast
  have expired: "outsideValidityPeriod v now chain k \<longrightarrow>
      validateCertificate v now chain purpose =
        \<lparr>valid = False, details = None, error = Some ''CERTIFICATE_EXPIRED''\<rparr>"
    using decides [OF outsideValidityPeriod_expired]
    by (simp add: createValidationFailure_def)
  have algorithm: "failsAlgorithmCheck v now chain k \<longrightarrow>
      validateCertificate v now chain purpose =
        \<lparr>valid = False, details = None, error = Some ''UNSUPPORTED_SIGNATURE_ALGORITHM''\<rparr>"
    using decides [OF failsAlgorithmCheck_unsupported]
    by (simp add: createValidationFailure_def)
  have usage: "failsKeyUsageCheck v now purpose chain k \<longrightarrow>
      validateCertificate v now chain purpose =
        \<lparr>valid = False, details = None, error = Some ''INVALID_KEY_USAGE''\<rparr>"
    using decides [OF failsKeyUsageCheck_invalid]
    by (simp add: createValidationFailure_def)
  have signature: "failsSignatureCheck v now purpose chain k \<longrightarrow>
      validateCertificate v now chain purpose =
        \<lparr>valid = False, details = None, error = Some ''INVALID_SIGNATURE''\<rparr>"
    using decides [OF failsSignatureCheck_invalid]
    by (simp add: createValidationFailure_def)
  from general expired algorithm usage signature show ?thesis by blast
qed

text \<open>
  Four chains of two certificates at clock reading 100. An expired root after a good leaf
  gives \<^verbatim>\<open>CERTIFICATE_EXPIRED\<close>; the same expired root after a leaf with a weak algorithm
  or without the key usage gives the leaf's failure; a root that is not the leaf's issuer
  gives \<^verbatim>\<open>INVALID_SIGNATURE\<close>.
\<close>

theorem validateCertificate_first_failure_witness:
  "length [''PEM:leaf'', ''PEM:expired-root''] \<le> MAX_CHAIN_DEPTH (validationConfig exampleValidator) \<and>
   passesOwnChecks exampleValidator 100 AUTHENTICATION [''PEM:leaf'', ''PEM:expired-root''] 0 \<and>
   outsideValidityPeriod exampleValidator 100 [''PEM:leaf'', ''PEM:expired-root''] 1 \<and>
   validateCertificate exampleValidator 100 [''PEM:leaf'', ''PEM:expired-root''] AUTHENTICATION =
     \<lparr>valid = False, details = None, error = Some ''CERTIFICATE_EXPIRED''\<rparr> \<and>
   failsAlgorithmCheck exampleValidator 100 [''PEM:weak-leaf'', ''PEM:expired-root''] 0 \<and>
   outsideValidityPeriod exampleValidator 100 [''PEM:weak-leaf'', ''PEM:expired-root''] 1 \<and>
   validateCertificate exampleValidator 100 [''PEM:weak-leaf'', ''PEM:expired-root''] AUTHENTICATION =
     \<lparr>valid = False, details = None, error = Some ''UNSUPPORTED_SIGNATURE_ALGORITHM''\<rparr> \<and>
   failsKeyUsageCheck exampleValidator 100 AUTHENTICATION [''PEM:bare-leaf'', ''PEM:expired-root''] 0 \<and>
   validateCertificate exampleValidator 100 [''PEM:bare-leaf'', ''PEM:expired-root''] AUTHENTICATION =
     \<lparr>valid = False, details = None, error = Some ''INVALID_KEY_USAGE''\<rparr> \<and>
   passesOwnChecks exampleValidator 100 AUTHENTICATION [''PEM:leaf'', ''PEM:other-root''] 0 \<and>
   failsSignatureCheck exampleValidator 100 AUTHENTICATION [''PEM:leaf'', ''PEM:other-root''] 1 \<and>
   validateCertificate exampleValidator 100 [''PEM:leaf'', ''PEM:other-root''] AUTHENTICATION =
     \<lparr>valid = False, details = None, error = Some ''INVALID_SIGNATURE''\<rparr>"
proof -
  let ?expired = "[''PEM:leaf'', ''PEM:expired-root'']"
  let ?weak = "[''PEM:weak-leaf'', ''PEM:expired-root'']"
  let ?bare = "[''PEM:bare-leaf'', ''PEM:expired-root'']"
  let ?other = "[''PEM:leaf'', ''PEM:other-root'']"
  have depth: "length ?expired \<le> MAX_CHAIN_DEPTH (validationConfig exampleValidator)"
    "length ?weak \<le> MAX_CHAIN_DEPTH (validationConfig exampleValidator)"
    "length ?bare \<le> MAX_CHAIN_DEPTH (validationConfig exampleValidator)"
    "length ?other \<le> MAX_CHAIN_DEPTH (validationConfig exampleValidator)"
    by (simp_all add: example_defs)
  have leaf: "passesOwnChecks exampleValidator 100 AUTHENTICATION ?expired 0"
    and leaf': "passesOwnChecks exampleValidator 100 AUTHENTICATION ?other 0"
    by (simp_all add: passesOwnChecks_def example_defs)
  have before1: "\<forall>j < 1. passesOwnChecks exampleValidator 100 AUTHENTICATION ?expired j"
    and before1': "\<forall>j < 1. passesOwnChecks exampleValidator 100 AUTHENTICATION ?other j"
    using leaf leaf' by simp_all
  have before0: "\<forall>j < 0. passesOwnChecks exampleValidator 100 AUTHENTICATION ?weak j"
    and before0': "\<forall>j < 0. passesOwnChecks exampleValidator 100 AUTHENTICATION ?bare j"
    by simp_all
  have expired: "outsideValidityPeriod exampleValidator 100 ?expired 1"
    and expired': "outsideValidityPeriod exampleValidator 100 ?weak 1"
    by (simp_all add: outsideValidityPeriod_def example_defs)
  have weak: "failsAlgorithmCheck exampleValidator 100 ?weak 0"
    by (simp add: failsAlgorithmCheck_def example_defs)
  have bare: "failsKeyUsageCheck exampleValidator 100 AUTHENTICATION ?bare 0"
    by (simp add: failsKeyUsageCheck_def example_defs)
  have other: "failsSignatureCheck exampleValidator 100 AUTHENTICATION ?other 1"
    by (simp add: failsSignatureCheck_def example_defs)
  have r1: "validateCertificate exampleValidator 100 ?expired AUTHENTICATION =
      \<lparr>valid = False, details = None, error = Some ''CERTIFICATE_EXPIRED''\<rparr>"
    using validateCertificate_first_failure [OF depth(1) _ before1] expired by simp
  have r2: "validateCertificate exampleValidator 100 ?weak AUTHENTICATION =
      \<lparr>valid = False, details = None, error = Some ''UNSUPPORTED_SIGNATURE_ALGORITHM''\<rparr>"
    using validateCertificate_first_failure [OF depth(2) _ before0] weak by simp
  have r3: "validateCertificate exampleValidator 100 ?bare AUTHENTICATION =
      \<lparr>valid = False, details = None, error = Some ''INVALID_KEY_USAGE''\<rparr>"
    using validateCertificate_first_failure [OF depth(3) _ before0'] bare by simp
  have r4: "validateCertificate exampleValidator 100 ?other AUTHENTICATION =
      \<lparr>valid = False, details = None, error = Some ''INVALID_SIGNATURE''\<rparr>"
    using validateCertificate_first_failure [OF depth(4) _ before1'] other by simp
  from depth(1) leaf leaf' expired expired' weak bare other r1 r2 r3 r4
  show ?thesis by blast
qed

text \<open>
  C7, as stated, fails: the validator reads the wall clock itself. The same chain, purpose,
  trust anchors and configuration, validated at two readings of the clock, give two
  different results.
\<close>

theorem validateCertificate_reads_clock_counterexample:
  "validateCertificate exampleValidator 100 [''PEM:leaf'', ''PEM:root''] AUTHENTICATION =
     \<lparr>valid = True, details = Some \<lparr>chainLength = 2, validationTimestamp = 100\<rparr>, error = None\<rparr> \<and>
   validateCertificate exampleValidator 200 [''PEM:leaf'', ''PEM:root''] AUTHENTICATION =
     \<lparr>valid = True, details = Some \<lparr>chainLength = 2, validationTimestamp = 200\<rparr>, error = None\<rparr> \<and>
   validateCertificate exampleValidator 100 [''PEM:leaf'', ''PEM:root''] AUTHENTICATION \<noteq>
   validateCertificate exampleValidator 200 [''PEM:leaf'', ''PEM:root''] AUTHENTICATION"
  by (simp add: validateCertificate_def validateFrom_step validateFrom_done checkCertificate_def
        createValidationFailure_def example_defs)

text \<open>
  C7, amended. The result is a function of the chain, the purpose, the validator and the
  reading of the wall clock taken during the call. Two successful runs on the same chain
  and purpose carry the chain length and their own clock reading as details, and are
  identical exactly when the two readings are.
\<close>

theorem validateCertificate_success_details:
  "valid (validateCertificate v t1 chain purpose) \<Longrightarrow>
   valid (validateCertificate v t2 chain purpose) \<Longrightarrow>
   details (validateCertificate v t1 chain purpose) =
     Some \<lparr>chainLength = length chain, validationTimestamp = t1\<rparr> \<and>
   details (validateCertificate v t2 chain purpose) =
     Some \<lparr>chainLength = length chain, validationTimestamp = t2\<rparr> \<and>
   (validateCertificate v t1 chain purpose = validateCertificate v t2 chain purpose \<longleftrightarrow> t1 = t2)"
  using validateCertificate_valid [of v t1 chain purpose]
        validateCertificate_valid [of v t2 chain purpose]
  by auto

theorem validateCertificate_success_details_witness:
  "valid (validateCertificate exampleValidator 100 [''PEM:leaf'', ''PEM:root''] AUTHENTICATION) \<and>
   valid (validateCertificate exampleValidator 200 [''PEM:leaf'', ''PEM:root''] AUTHENTICATION) \<and>
   details (validateCertificate exampleValidator 100 [''PEM:leaf'', ''PEM:root''] AUTHENTICATION) =
     Some \<lparr>chainLength = 2, validationTimestamp = 100\<rparr> \<and>
   details (validateCertificate exampleValidator 200 [''PEM:leaf'', ''PEM:root''] AUTHENTICATION) =
     Some \<lparr>chainLength = 2, validationTimestamp = 200\<rparr> \<and>
   validateCertificate exampleValidator 100 [''PEM:leaf'', ''PEM:root''] AUTHENTICATION \<noteq>
   validateCertificate exampleValidator 200 [''PEM:leaf'', ''PEM:root''] AUTHENTICATION"
proof -
  have ok1: "valid (validateCertificate exampleValidator 100 [''PEM:leaf'', ''PEM:root''] AUTHENTICATION)"
    by (simp add: validateCertificate_def validateFrom_step validateFrom_done checkCertificate_def
          createValidationFailure_def example_defs)
  have ok2: "valid (validateCertificate exampleValidator 200 [''PEM:leaf'', ''PEM:root''] AUTHENTICATION)"
    by (simp add: validateCertificate_def validateFrom_step validateFrom_done checkCertificate_def
          createValidationFailure_def example_defs)
  from validateCertificate_success_details [OF ok1 ok2] ok1 ok2
  show ?thesis by simp
qed

end
